theory Spec2Isabelle
  imports Complex_Main "HOL-Library.Sublist"
begin

section \<open>Data model\<close>

text \<open>
  The dashboard module declares \<^verbatim>\<open>generateJobMatches(skills: string[], proficiencyLevels: number[])\<close>
  and computes the attendance figure inline in the \<^verbatim>\<open>Dashboard\<close> component.

  Numbers: a proficiency level is modelled as a mathematical integer (the dashboard passes
  \<^verbatim>\<open>Math.floor(Math.random() * 30) + 70\<close>) and a score as an integer. \<^verbatim>\<open>Math.round\<close> rounds
  to the nearest integer with halves going up, which is \<^const>\<open>round\<close> of HOL.

  In \<^verbatim>\<open>generateJobMatches\<close> the quotient \<^verbatim>\<open>proficiency / option.minScore * 100\<close> is kept as
  an exact real number: it is only computed for \<open>proficiency \<ge> minScore > 0\<close>, where it is at
  least 100 in double precision as well, and the cap decides the score. For the attendance
  figure the rounding of each double-precision operation is modelled (section
  \<open>Double-precision arithmetic\<close>), because there it decides the result.
\<close>

record RoleOption =
  role :: string
  company :: string
  minScore :: int

record JobMatch =
  role :: string
  company :: string
  matchScore :: int
  recommendation :: string

record AttendanceRecord =
  present :: bool

text \<open>The only exception the function can raise: calling a property that is not a function.\<close>

datatype error = TypeError

section \<open>The role catalog\<close>

text \<open>The own properties of the object literal \<^verbatim>\<open>jobRoles\<close>, in source order.\<close>

definition jobRoles :: "(string \<times> RoleOption list) list" where
  "jobRoles =
    [(''Python'',
       [\<lparr>RoleOption.role = ''Data Scientist'', company = ''DataCorp Analytics'', minScore = 85\<rparr>,
        \<lparr>RoleOption.role = ''Machine Learning Engineer'', company = ''AI Solutions Ltd'', minScore = 90\<rparr>,
        \<lparr>RoleOption.role = ''Backend Developer'', company = ''TechStack Inc'', minScore = 80\<rparr>]),
     (''JavaScript'',
       [\<lparr>RoleOption.role = ''Frontend Developer'', company = ''WebTech Solutions'', minScore = 80\<rparr>,
        \<lparr>RoleOption.role = ''Full Stack Developer'', company = ''Digital Innovations'', minScore = 85\<rparr>,
        \<lparr>RoleOption.role = ''React Developer'', company = ''Modern Apps Inc'', minScore = 82\<rparr>]),
     (''Java'',
       [\<lparr>RoleOption.role = ''Software Engineer'', company = ''Enterprise Systems'', minScore = 85\<rparr>,
        \<lparr>RoleOption.role = ''Android Developer'', company = ''Mobile Solutions'', minScore = 88\<rparr>,
        \<lparr>RoleOption.role = ''Backend Developer'', company = ''Cloud Services Ltd'', minScore = 82\<rparr>]),
     (''C++'',
       [\<lparr>RoleOption.role = ''Systems Engineer'', company = ''Hardware Solutions'', minScore = 88\<rparr>,
        \<lparr>RoleOption.role = ''Game Developer'', company = ''Gaming Studios'', minScore = 85\<rparr>,
        \<lparr>RoleOption.role = ''Embedded Systems Developer'', company = ''IoT Technologies'', minScore = 90\<rparr>])]"

text \<open>
  \<^verbatim>\<open>jobRoles\<close> is an ordinary object, so a property read that finds no own property goes on
  to \<^verbatim>\<open>Object.prototype\<close>. These are the property names found there; each holds a function
  (or, for \<^verbatim>\<open>__proto__\<close>, the prototype object itself): a truthy value that has no
  \<^verbatim>\<open>forEach\<close>.
\<close>

definition objectPrototype :: "string list" where
  "objectPrototype =
    [''constructor'', ''hasOwnProperty'', ''isPrototypeOf'', ''propertyIsEnumerable'',
     ''toLocaleString'', ''toString'', ''valueOf'', ''__proto__'',
     ''__defineGetter__'', ''__defineSetter__'', ''__lookupGetter__'', ''__lookupSetter__'']"

text \<open>The value of a property read \<^verbatim>\<open>jobRoles[skill]\<close>.\<close>

datatype property = Array "RoleOption list" | Inherited | Undefined

definition jobRoles_get :: "string \<Rightarrow> property" where
  "jobRoles_get skill =
    (case map_of jobRoles skill of
       Some options \<Rightarrow> Array options
     | None \<Rightarrow> if skill \<in> set objectPrototype then Inherited else Undefined)"

text \<open>\<^verbatim>\<open>jobRoles[skill] || []\<close>: only a falsy value is replaced by the empty array.\<close>

definition roleOptions :: "string \<Rightarrow> property" where
  "roleOptions skill =
    (case jobRoles_get skill of Undefined \<Rightarrow> Array [] | v \<Rightarrow> v)"

section \<open>Building one match\<close>

text \<open>
  \<^verbatim>\<open>proficiencyLevels[index]\<close>: an index past the end reads \<^verbatim>\<open>undefined\<close>, which is
  \<open>None\<close> here.
\<close>

definition proficiencyLevels_at :: "int list \<Rightarrow> nat \<Rightarrow> int option" where
  "proficiencyLevels_at proficiencyLevels index =
    (if index < length proficiencyLevels then Some (proficiencyLevels ! index) else None)"

text \<open>
  The decimal digits of a number inside a template literal (plain digits, a leading minus
  sign for a negative number; integers below \<open>10^21\<close> print this way).
\<close>

definition digit :: "nat \<Rightarrow> char" where
  "digit d = ''0123456789'' ! d"

fun digits :: "nat \<Rightarrow> string" where
  "digits n = (if n < 10 then [digit n] else digits (n div 10) @ [digit (n mod 10)])"

definition numberToString :: "int \<Rightarrow> string" where
  "numberToString n = (if n < 0 then CHR ''-'' # digits (nat (- n)) else digits (nat n))"

text \<open>The object pushed onto \<^verbatim>\<open>matches\<close> for a qualifying option.\<close>

definition jobMatch :: "string \<Rightarrow> int \<Rightarrow> RoleOption \<Rightarrow> JobMatch" where
  "jobMatch skill proficiency option =
    (let matchScore = round ((real_of_int proficiency / real_of_int (minScore option)) * 100)
     in \<lparr>role = RoleOption.role option,
         company = RoleOption.company option,
         matchScore = min matchScore 98,
         recommendation =
           ''Strong match based on your '' @ skill @ '' skills ('' @ numberToString proficiency @
           ''%). Your recent projects and assessments demonstrate the required expertise for this role.''\<rparr>)"

section \<open>The two loops\<close>

text \<open>
  \<^verbatim>\<open>roleOptions.forEach(option => { if (proficiency >= option.minScore) matches.push(...) })\<close>,
  with the array \<^verbatim>\<open>matches\<close> passed through. The comparison with \<^verbatim>\<open>undefined\<close> is false.
\<close>

fun roleOptions_forEach ::
  "string \<Rightarrow> int option \<Rightarrow> RoleOption list \<Rightarrow> JobMatch list \<Rightarrow> JobMatch list" where
  "roleOptions_forEach skill proficiency [] matches = matches"
| "roleOptions_forEach skill proficiency (option # rest) matches =
    (case proficiency of
       None \<Rightarrow> roleOptions_forEach skill proficiency rest matches
     | Some p \<Rightarrow>
         if p \<ge> minScore option
         then roleOptions_forEach skill proficiency rest (matches @ [jobMatch skill p option])
         else roleOptions_forEach skill proficiency rest matches)"

text \<open>
  \<^verbatim>\<open>skills.forEach((skill, index) => ...)\<close>. When \<^verbatim>\<open>roleOptions\<close> is not an array the call
  \<^verbatim>\<open>roleOptions.forEach\<close> raises and the exception leaves the function.
\<close>

fun skills_forEach ::
  "int list \<Rightarrow> nat \<Rightarrow> string list \<Rightarrow> JobMatch list \<Rightarrow> error + JobMatch list" where
  "skills_forEach proficiencyLevels index [] matches = Inr matches"
| "skills_forEach proficiencyLevels index (skill # rest) matches =
    (let proficiency = proficiencyLevels_at proficiencyLevels index
     in case roleOptions skill of
          Array options \<Rightarrow>
            skills_forEach proficiencyLevels (Suc index) rest
              (roleOptions_forEach skill proficiency options matches)
        | _ \<Rightarrow> Inl TypeError)"

section \<open>Sorting and truncation\<close>

text \<open>
  \<^verbatim>\<open>matches.sort((a, b) => b.matchScore - a.matchScore)\<close>. The sort of the language is
  stable: elements that compare equal keep their order. It is modelled by insertion from
  the right, where an element goes in front of the first one it does not have to follow.
\<close>

definition compareFn :: "JobMatch \<Rightarrow> JobMatch \<Rightarrow> int" where
  "compareFn a b = matchScore b - matchScore a"

fun insert_by :: "('a \<Rightarrow> 'a \<Rightarrow> int) \<Rightarrow> 'a \<Rightarrow> 'a list \<Rightarrow> 'a list" where
  "insert_by cmp x [] = [x]"
| "insert_by cmp x (y # ys) = (if cmp x y \<le> 0 then x # y # ys else y # insert_by cmp x ys)"

definition sort_by :: "('a \<Rightarrow> 'a \<Rightarrow> int) \<Rightarrow> 'a list \<Rightarrow> 'a list" where
  "sort_by cmp xs = foldr (insert_by cmp) xs []"

text \<open>\<^verbatim>\<open>.slice(0, 2)\<close> is \<open>take 2\<close>.\<close>

definition generateJobMatches :: "string list \<Rightarrow> int list \<Rightarrow> error + JobMatch list" where
  "generateJobMatches skills proficiencyLevels =
    (case skills_forEach proficiencyLevels 0 skills [] of
       Inl e \<Rightarrow> Inl e
     | Inr matches \<Rightarrow> Inr (take 2 (sort_by compareFn matches)))"

section \<open>Double-precision arithmetic\<close>

text \<open>
  A number of the language is a double: a sign, a significand of 53 bits and an exponent.
  The result of \<^verbatim>\<open>/\<close> and of \<^verbatim>\<open>*\<close> is the exact result rounded to the nearest double, a
  tie going to the even significand. \<open>double x\<close> is that rounding of the real number \<open>x\<close>:
  \<open>x\<close> is scaled by a power of two into the range from \<open>2^52\<close> to \<open>2^53\<close>, rounded to an
  integer and scaled back. The range of the exponent is not modelled (no overflow, no
  subnormal numbers): the numbers of the attendance figure lie between \<open>2^-32\<close> and 101.
\<close>

definition roundTiesToEven :: "real \<Rightarrow> int" where
  "roundTiesToEven z =
    (let f = \<lfloor>z\<rfloor>; d = z - of_int f
     in if d < 1/2 then f else if d > 1/2 then f + 1 else if even f then f else f + 1)"

function scale_up :: "real \<Rightarrow> nat" where
  "scale_up x = (if 0 < x \<and> x < 2^52 then Suc (scale_up (2 * x)) else 0)"
  by pat_completeness auto
termination
proof (relation "measure (\<lambda>x. nat \<lfloor>2^52 / x\<rfloor>)")
  show "wf (measure (\<lambda>x. nat \<lfloor>2^52 / x\<rfloor>))"
    by simp
next
  fix x :: real
  assume a: "0 < x \<and> x < 2^52"
  then have "1 \<le> 2^52 / x"
    by simp
  then have "1 \<le> \<lfloor>2^52 / x\<rfloor>"
    by linarith
  moreover have "\<lfloor>2^52 / (2 * x)\<rfloor> \<le> \<lfloor>2^52 / x\<rfloor> div 2"
  proof -
    have "2^52 / (2 * x) = (2^52 / x) / 2" by simp
    then have "\<lfloor>2^52 / (2 * x)\<rfloor> = \<lfloor>(2^52 / x) / 2\<rfloor>" by simp
    also have "\<dots> = \<lfloor>2^52 / x\<rfloor> div 2"
      using floor_divide_real_eq_div [of 2 "2^52 / x"] by simp
    finally show ?thesis by simp
  qed
  ultimately have "nat \<lfloor>2^52 / (2 * x)\<rfloor> < nat \<lfloor>2^52 / x\<rfloor>"
    by linarith
  then show "(2 * x, x) \<in> measure (\<lambda>x. nat \<lfloor>2^52 / x\<rfloor>)"
    by simp
qed

function scale_down :: "real \<Rightarrow> nat" where
  "scale_down x = (if 2^53 \<le> x then Suc (scale_down (x / 2)) else 0)"
  by pat_completeness auto
termination
proof (relation "measure (\<lambda>x. nat \<lfloor>x\<rfloor>)")
  show "wf (measure (\<lambda>x. nat \<lfloor>x\<rfloor>))"
    by simp
next
  fix x :: real
  assume a: "2^53 \<le> x"
  have "\<lfloor>x / 2\<rfloor> = \<lfloor>x\<rfloor> div 2"
    using floor_divide_real_eq_div [of 2 x] by simp
  moreover have "1 \<le> x"
    using a by simp
  then have "1 \<le> \<lfloor>x\<rfloor>"
    by simp
  ultimately have "nat \<lfloor>x / 2\<rfloor> < nat \<lfloor>x\<rfloor>"
    by linarith
  then show "(x / 2, x) \<in> measure (\<lambda>x. nat \<lfloor>x\<rfloor>)"
    by simp
qed

definition double_pos :: "real \<Rightarrow> real" where
  "double_pos x =
    (if x < 2^53
     then (let k = scale_up x in real_of_int (roundTiesToEven (x * 2^k)) / 2^k)
     else (let k = scale_down x in real_of_int (roundTiesToEven (x / 2^k)) * 2^k))"

definition double :: "real \<Rightarrow> real" where
  "double x = (if x = 0 then 0 else if 0 < x then double_pos x else - double_pos (- x))"

declare scale_up.simps [simp del]

declare scale_down.simps [simp del]

section \<open>Attendance\<close>

text \<open>
  \<^verbatim>\<open>studentAttendance.length > 0 ? (studentAttendance.filter(record => record.present).length
  / studentAttendance.length) * 100 : 0\<close>, and the field \<^verbatim>\<open>attendance: Math.round(attendancePercentage)\<close>
  of \<^verbatim>\<open>updatedMetrics\<close>. The two lengths are integers below \<open>2^32\<close> and the constant 100 is
  an integer: all three are doubles. The division and the multiplication each round.
\<close>

definition attendancePercentage :: "AttendanceRecord list \<Rightarrow> real" where
  "attendancePercentage studentAttendance =
    (if length studentAttendance > 0
     then double (double (real (length (filter present studentAttendance))
                            / real (length studentAttendance)) * 100)
     else 0)"

definition attendance :: "AttendanceRecord list \<Rightarrow> int" where
  "attendance studentAttendance = round (attendancePercentage studentAttendance)"

section \<open>The specification's reading of the operations\<close>

text \<open>
  The candidate roles of a skill: its list in the catalog, and the empty list for a skill
  that is not a catalog key.
\<close>

definition catalog :: "string \<Rightarrow> RoleOption list" where
  "catalog skill = (case map_of jobRoles skill of Some options \<Rightarrow> options | None \<Rightarrow> [])"

text \<open>
  The matches of one (skill, proficiency) pair, in catalog order: one for each candidate
  role whose threshold the proficiency reaches. A missing proficiency reaches none.
\<close>

definition qualifying :: "string \<Rightarrow> int option \<Rightarrow> JobMatch list" where
  "qualifying skill proficiency =
    (case proficiency of
       None \<Rightarrow> []
     | Some p \<Rightarrow> map (jobMatch skill p) (filter (\<lambda>option. p \<ge> minScore option) (catalog skill)))"

text \<open>The collection order: skills in input order, then catalog order within a skill.\<close>

definition collected :: "string list \<Rightarrow> int list \<Rightarrow> JobMatch list" where
  "collected skills proficiencyLevels =
    concat (map (\<lambda>i. qualifying (skills ! i) (proficiencyLevels_at proficiencyLevels i))
                [0..<length skills])"

text \<open>
  The specification's \<^verbatim>\<open>computeAttendancePercentage\<close>: the count of present records over the
  total count, times 100, rounded to the nearest integer, and 0 for the empty sequence,
  in exact arithmetic.
\<close>

definition spec_computeAttendancePercentage :: "AttendanceRecord list \<Rightarrow> int" where
  "spec_computeAttendancePercentage records =
    (if records = [] then 0
     else round (real (count_list (map present records) True) / real (length records) * 100))"

section \<open>The catalog lookup and the loops\<close>

lemma map_of_jobRoles_cases:
  "map_of jobRoles skill = None \<or> skill \<in> {''Python'', ''JavaScript'', ''Java'', ''C++''}"
  by (simp add: jobRoles_def)

lemma objectPrototype_not_key:
  "skill \<in> set objectPrototype \<Longrightarrow> map_of jobRoles skill = None"
  by (auto simp: objectPrototype_def jobRoles_def)

lemma roleOptions_eq:
  "roleOptions skill = (if skill \<in> set objectPrototype then Inherited else Array (catalog skill))"
  using objectPrototype_not_key [of skill]
  by (auto simp: roleOptions_def jobRoles_get_def catalog_def split: option.splits)

lemma roleOptions_forEach_eq:
  "roleOptions_forEach skill proficiency options matches =
     matches @ (case proficiency of
                  None \<Rightarrow> []
                | Some p \<Rightarrow> map (jobMatch skill p) (filter (\<lambda>option. p \<ge> minScore option) options))"
  by (induction options arbitrary: matches) (auto split: option.splits)

lemma roleOptions_forEach_catalog:
  "roleOptions_forEach skill proficiency (catalog skill) matches = matches @ qualifying skill proficiency"
  by (simp add: roleOptions_forEach_eq qualifying_def)

lemma skills_forEach_eq:
  "skills_forEach proficiencyLevels index skills matches =
     (if \<exists>skill \<in> set skills. skill \<in> set objectPrototype then Inl TypeError
      else Inr (matches @
        concat (map (\<lambda>i. qualifying (skills ! i) (proficiencyLevels_at proficiencyLevels (index + i)))
                    [0..<length skills])))"
proof (induction skills arbitrary: index matches)
  case Nil
  show ?case by simp
next
  case (Cons skill rest)
  have upt: "[0..<length (skill # rest)] = 0 # map Suc [0..<length rest]"
    by (metis length_Cons map_Suc_upt upt_conv_Cons zero_less_Suc)
  show ?case
    unfolding upt
    by (simp add: Cons.IH roleOptions_eq roleOptions_forEach_catalog comp_def Let_def)
qed


lemma skills_forEach_collected:
  "skills_forEach proficiencyLevels 0 skills [] =
     (if \<exists>skill \<in> set skills. skill \<in> set objectPrototype then Inl TypeError
      else Inr (collected skills proficiencyLevels))"
  by (simp add: skills_forEach_eq collected_def)

lemma insert_by_compareFn:
  "insert_by compareFn x ys = insort_key (\<lambda>m. - matchScore m) x ys"
  by (induction ys) (auto simp: compareFn_def)

lemma sort_by_compareFn:
  "sort_by compareFn xs = sort_key (\<lambda>m. - matchScore m) xs"
  by (induction xs) (simp_all add: sort_by_def insert_by_compareFn)

lemma generateJobMatches_eq:
  "generateJobMatches skills proficiencyLevels =
     (if \<exists>skill \<in> set skills. skill \<in> set objectPrototype then Inl TypeError
      else Inr (take 2 (sort_key (\<lambda>m. - matchScore m) (collected skills proficiencyLevels))))"
  by (simp add: generateJobMatches_def skills_forEach_collected sort_by_compareFn)

lemma catalog_minScore:
  "option \<in> set (catalog skill) \<Longrightarrow> 80 \<le> minScore option \<and> minScore option \<le> 90"
  using map_of_jobRoles_cases [of skill]
  by (auto simp: catalog_def jobRoles_def)

lemma rawScore_ge_100:
  assumes "0 < m" and "m \<le> p"
  shows "100 \<le> round ((real_of_int p / real_of_int m) * 100)"
proof -
  have "1 \<le> real_of_int p / real_of_int m"
    using assms by simp
  then have "1 * 100 \<le> (real_of_int p / real_of_int m) * 100"
    by (rule mult_right_mono) simp
  then have "real_of_int 100 \<le> (real_of_int p / real_of_int m) * 100"
    by simp
  then have "round (real_of_int 100) \<le> round ((real_of_int p / real_of_int m) * 100)"
    by (rule round_mono)
  then show ?thesis
    by simp
qed

lemma matchScore_jobMatch:
  "matchScore (jobMatch skill p option) = min (round ((real_of_int p / real_of_int (minScore option)) * 100)) 98"
  by (simp add: jobMatch_def Let_def)

lemma matchScore_qualifying:
  assumes "option \<in> set (catalog skill)" and "minScore option \<le> p"
  shows "matchScore (jobMatch skill p option) = 98"
  using rawScore_ge_100 [of "minScore option" p] catalog_minScore [OF assms(1)] assms(2)
  by (simp add: matchScore_jobMatch)

lemma collected_provenance:
  assumes "m \<in> set (collected skills proficiencyLevels)"
  shows "\<exists>i < length skills. i < length proficiencyLevels \<and>
           (\<exists>option \<in> set (catalog (skills ! i)).
              minScore option \<le> proficiencyLevels ! i \<and>
              m = jobMatch (skills ! i) (proficiencyLevels ! i) option)"
  using assms
  by (auto simp: collected_def qualifying_def proficiencyLevels_at_def split: option.splits if_splits)

lemma collected_matchScore:
  "m \<in> set (collected skills proficiencyLevels) \<Longrightarrow> matchScore m = 98"
  using collected_provenance matchScore_qualifying by blast

lemma sorted_map_const:
  "\<forall>x \<in> set xs. f x = (c::int) \<Longrightarrow> sorted (map f xs)"
  by (induction xs) auto

lemma sort_collected:
  "sort_key (\<lambda>m. - matchScore m) (collected skills proficiencyLevels) = collected skills proficiencyLevels"
proof (rule sort_key_id_if_sorted)
  show "sorted (map (\<lambda>m. - matchScore m) (collected skills proficiencyLevels))"
    by (rule sorted_map_const [where c = "- 98"]) (simp add: collected_matchScore)
qed



lemma generateJobMatches_take_collected:
  "generateJobMatches skills proficiencyLevels =
     (if \<exists>skill \<in> set skills. skill \<in> set objectPrototype then Inl TypeError
      else Inr (take 2 (collected skills proficiencyLevels)))"
  by (simp add: generateJobMatches_eq sort_collected)

lemma collected_truncate:
  "collected skills proficiencyLevels =
     collected (take (min (length skills) (length proficiencyLevels)) skills)
               (take (min (length skills) (length proficiencyLevels)) proficiencyLevels)"
proof -
  let ?n = "min (length skills) (length proficiencyLevels)"
  let ?g = "\<lambda>i. qualifying (skills ! i) (proficiencyLevels_at proficiencyLevels i)"
  let ?h = "\<lambda>i. qualifying (take ?n skills ! i)
                   (proficiencyLevels_at (take ?n proficiencyLevels) i)"
  have "[0..<?n + (length skills - ?n)] = [0..<?n] @ [?n..<?n + (length skills - ?n)]"
    by (rule upt_add_eq_append) simp
  then have split: "[0..<length skills] = [0..<?n] @ [?n..<length skills]"
    by simp
  have tail: "concat (map ?g [?n..<length skills]) = []"
    by (auto simp: qualifying_def proficiencyLevels_at_def)
  have head: "map ?g [0..<?n] = map ?h [0..<?n]"
    by (rule map_cong) (auto simp: proficiencyLevels_at_def)
  have "collected skills proficiencyLevels = concat (map ?g [0..<?n]) @ concat (map ?g [?n..<length skills])"
    unfolding collected_def by (subst split) simp
  also have "\<dots> = concat (map ?h [0..<?n])"
    by (simp only: tail head append_Nil2)
  also have "\<dots> = collected (take ?n skills) (take ?n proficiencyLevels)"
    by (simp add: collected_def)
  finally show ?thesis .
qed

lemma generateJobMatches_Python_90:
  "generateJobMatches [''Python''] [90] =
     Inr [jobMatch ''Python'' 90
            \<lparr>RoleOption.role = ''Data Scientist'', company = ''DataCorp Analytics'', minScore = 85\<rparr>,
          jobMatch ''Python'' 90
            \<lparr>RoleOption.role = ''Machine Learning Engineer'', company = ''AI Solutions Ltd'', minScore = 90\<rparr>]"
  by (simp add: generateJobMatches_take_collected objectPrototype_def collected_def qualifying_def
        proficiencyLevels_at_def catalog_def jobRoles_def)


lemma result_in_collected:
  assumes "generateJobMatches skills proficiencyLevels = Inr result" and "m \<in> set result"
  shows "m \<in> set (collected skills proficiencyLevels)"
proof -
  from assms(1)
  have "result = take 2 (sort_key (\<lambda>m. - matchScore m) (collected skills proficiencyLevels))"
    by (simp add: generateJobMatches_eq split: if_splits)
  with assms(2) have "m \<in> set (sort_key (\<lambda>m. - matchScore m) (collected skills proficiencyLevels))"
    by (auto dest: in_set_takeD)
  then show ?thesis
    by simp
qed

section \<open>Properties of the job matches\<close>

text \<open>
  C1 (threshold gate). For inputs of equal length, every match in the returned list was
  built from some index \<open>i\<close> and some catalog entry of \<open>skills[i]\<close> whose threshold
  \<open>proficiencyLevels[i]\<close> reaches: \<open>proficiencyLevels[i] \<ge> entry.minScore\<close>, equality
  included. So a pair below its threshold is never the origin of a returned match.
\<close>

theorem threshold_gate:
  assumes "length skills = length proficiencyLevels"
    and "generateJobMatches skills proficiencyLevels = Inr result"
    and "m \<in> set result"
  shows "\<exists>i < length skills. \<exists>option \<in> set (catalog (skills ! i)).
           proficiencyLevels ! i \<ge> minScore option \<and>
           m = jobMatch (skills ! i) (proficiencyLevels ! i) option"
proof -
  have "m \<in> set (collected skills proficiencyLevels)"
    using assms(2,3) by (rule result_in_collected)
  then show ?thesis
    using collected_provenance by blast
qed

text \<open>
  The threshold at work on \<open>(["Python"], [90])\<close>: the Machine Learning Engineer entry is returned
  with a proficiency equal to its threshold 90.
\<close>

theorem threshold_gate_witness:
  "length [''Python''] = length [90::int] \<and>
   generateJobMatches [''Python''] [90] =
     Inr [jobMatch ''Python'' 90
            \<lparr>RoleOption.role = ''Data Scientist'', company = ''DataCorp Analytics'', minScore = 85\<rparr>,
          jobMatch ''Python'' 90
            \<lparr>RoleOption.role = ''Machine Learning Engineer'', company = ''AI Solutions Ltd'', minScore = 90\<rparr>] \<and>
   (\<exists>i < length [''Python'']. \<exists>option \<in> set (catalog ([''Python''] ! i)).
      [90] ! i \<ge> minScore option \<and>
      jobMatch ''Python'' 90
        \<lparr>RoleOption.role = ''Machine Learning Engineer'', company = ''AI Solutions Ltd'', minScore = 90\<rparr>
        = jobMatch ([''Python''] ! i) ([90] ! i) option)"
proof -
  have len: "length [''Python''] = length [90::int]"
    by simp
  have mem: "jobMatch ''Python'' 90
        \<lparr>RoleOption.role = ''Machine Learning Engineer'', company = ''AI Solutions Ltd'', minScore = 90\<rparr>
      \<in> set [jobMatch ''Python'' 90
            \<lparr>RoleOption.role = ''Data Scientist'', company = ''DataCorp Analytics'', minScore = 85\<rparr>,
          jobMatch ''Python'' 90
            \<lparr>RoleOption.role = ''Machine Learning Engineer'', company = ''AI Solutions Ltd'', minScore = 90\<rparr>]"
    by simp
  show ?thesis
    using len generateJobMatches_Python_90 threshold_gate [OF len generateJobMatches_Python_90 mem]
    by (intro conjI)
qed

text \<open>
  C2 (cap invariant). Every \<open>matchScore\<close> in the returned list lies between 0 and 98, and it
  is \<open>min(round(proficiency / minScore * 100), 98)\<close> for the pair the match was built from.
\<close>

theorem matchScore_cap:
  assumes "generateJobMatches skills proficiencyLevels = Inr result"
    and "m \<in> set result"
  shows "0 \<le> matchScore m \<and> matchScore m \<le> 98 \<and>
         (\<exists>i < length skills. \<exists>option \<in> set (catalog (skills ! i)).
            i < length proficiencyLevels \<and>
            matchScore m =
              min (round ((real_of_int (proficiencyLevels ! i) / real_of_int (minScore option)) * 100)) 98)"
proof -
  have m: "m \<in> set (collected skills proficiencyLevels)"
    using assms by (rule result_in_collected)
  then have "matchScore m = 98"
    by (rule collected_matchScore)
  moreover from m obtain i option where "i < length skills" "i < length proficiencyLevels"
      "option \<in> set (catalog (skills ! i))"
      "m = jobMatch (skills ! i) (proficiencyLevels ! i) option"
    using collected_provenance by blast
  ultimately show ?thesis
    using matchScore_jobMatch by auto
qed

theorem matchScore_cap_witness:
  "generateJobMatches [''Python''] [90] =
     Inr [jobMatch ''Python'' 90
            \<lparr>RoleOption.role = ''Data Scientist'', company = ''DataCorp Analytics'', minScore = 85\<rparr>,
          jobMatch ''Python'' 90
            \<lparr>RoleOption.role = ''Machine Learning Engineer'', company = ''AI Solutions Ltd'', minScore = 90\<rparr>] \<and>
   matchScore (jobMatch ''Python'' 90
            \<lparr>RoleOption.role = ''Data Scientist'', company = ''DataCorp Analytics'', minScore = 85\<rparr>) \<le> 98 \<and>
   round ((real_of_int 90 / real_of_int 85) * 100) = 106"
proof -
  have mem: "jobMatch ''Python'' 90
        \<lparr>RoleOption.role = ''Data Scientist'', company = ''DataCorp Analytics'', minScore = 85\<rparr>
      \<in> set [jobMatch ''Python'' 90
            \<lparr>RoleOption.role = ''Data Scientist'', company = ''DataCorp Analytics'', minScore = 85\<rparr>,
          jobMatch ''Python'' 90
            \<lparr>RoleOption.role = ''Machine Learning Engineer'', company = ''AI Solutions Ltd'', minScore = 90\<rparr>]"
    by simp
  have "round ((real_of_int 90 / real_of_int 85) * 100) = 106"
    by (simp add: round_def)
  then show ?thesis
    using generateJobMatches_Python_90 matchScore_cap [OF generateJobMatches_Python_90 mem]
    by simp
qed

text \<open>
  C6 (scenario A). On \<open>(["Python"], [90])\<close> three catalog entries qualify, in catalog order
  Data Scientist, Machine Learning Engineer (at exactly its threshold 90) and Backend
  Developer, each with the score 98; the returned list holds the first two of them, the
  top two under the stable order.
\<close>

theorem scenario_Python_90:
  "let r = ''Strong match based on your Python skills (90%). Your recent projects and assessments demonstrate the required expertise for this role.''
   in skills_forEach [90] 0 [''Python''] [] =
        Inr [\<lparr>role = ''Data Scientist'', company = ''DataCorp Analytics'', matchScore = 98, recommendation = r\<rparr>,
             \<lparr>role = ''Machine Learning Engineer'', company = ''AI Solutions Ltd'', matchScore = 98, recommendation = r\<rparr>,
             \<lparr>role = ''Backend Developer'', company = ''TechStack Inc'', matchScore = 98, recommendation = r\<rparr>]
    \<and> generateJobMatches [''Python''] [90] =
        Inr [\<lparr>role = ''Data Scientist'', company = ''DataCorp Analytics'', matchScore = 98, recommendation = r\<rparr>,
             \<lparr>role = ''Machine Learning Engineer'', company = ''AI Solutions Ltd'', matchScore = 98, recommendation = r\<rparr>]"
  by (simp add: generateJobMatches_def roleOptions_def jobRoles_get_def jobRoles_def
        proficiencyLevels_at_def jobMatch_def round_def numberToString_def digit_def
        sort_by_def compareFn_def Let_def)


text \<open>
  C4 (monotonicity and stable ties). The returned list is sorted by \<open>matchScore\<close> in
  non-increasing order, and for every score \<open>k\<close> the returned matches with that score are
  the first matches with that score of the collection, in collection order.
\<close>

theorem sorted_stable:
  assumes "generateJobMatches skills proficiencyLevels = Inr result"
  shows "sorted_wrt (\<lambda>a b. matchScore a \<ge> matchScore b) result \<and>
         (\<forall>k. prefix (filter (\<lambda>m. matchScore m = k) result)
                     (filter (\<lambda>m. matchScore m = k) (collected skills proficiencyLevels)))"
proof -
  let ?key = "\<lambda>m. - matchScore m"
  let ?sorted = "sort_key ?key (collected skills proficiencyLevels)"
  have result: "result = take 2 ?sorted"
    using assms by (simp add: generateJobMatches_eq split: if_splits)
  have "sorted (map ?key ?sorted)"
    by (rule sorted_sort_key)
  then have "sorted_wrt (\<lambda>a b. matchScore a \<ge> matchScore b) ?sorted"
    by (simp add: sorted_map)
  then have order: "sorted_wrt (\<lambda>a b. matchScore a \<ge> matchScore b) result"
    unfolding result by (rule sorted_wrt_take)
  have stable: "prefix (filter (\<lambda>m. matchScore m = k) result)
                  (filter (\<lambda>m. matchScore m = k) (collected skills proficiencyLevels))" for k
  proof -
    have "prefix (filter (\<lambda>m. ?key m = - k) result) (filter (\<lambda>m. ?key m = - k) ?sorted)"
      unfolding result by (intro filter_mono_prefix take_is_prefix)
    also have "filter (\<lambda>m. ?key m = - k) ?sorted
                 = filter (\<lambda>m. ?key m = - k) (collected skills proficiencyLevels)"
      by (rule sort_key_stable)
    finally show ?thesis
      by simp
  qed
  from order stable show ?thesis
    by blast
qed

theorem sorted_stable_witness:
  "generateJobMatches [''Python''] [90] =
     Inr [jobMatch ''Python'' 90
            \<lparr>RoleOption.role = ''Data Scientist'', company = ''DataCorp Analytics'', minScore = 85\<rparr>,
          jobMatch ''Python'' 90
            \<lparr>RoleOption.role = ''Machine Learning Engineer'', company = ''AI Solutions Ltd'', minScore = 90\<rparr>] \<and>
   prefix
     (filter (\<lambda>m. matchScore m = 98)
        [jobMatch ''Python'' 90
            \<lparr>RoleOption.role = ''Data Scientist'', company = ''DataCorp Analytics'', minScore = 85\<rparr>,
         jobMatch ''Python'' 90
            \<lparr>RoleOption.role = ''Machine Learning Engineer'', company = ''AI Solutions Ltd'', minScore = 90\<rparr>])
     (filter (\<lambda>m. matchScore m = 98) (collected [''Python''] [90]))"
  using generateJobMatches_Python_90 sorted_stable [OF generateJobMatches_Python_90]
  by blast

text \<open>
  C10 (every score is 98). Each returned match comes from a catalog entry with a positive
  threshold that the proficiency reaches, so its raw score is at least 100 and its
  \<open>matchScore\<close> is the cap 98; the sort leaves the collection as it is, and the returned list
  is the first two matches in collection order.
\<close>

theorem matchScore_always_98:
  assumes "generateJobMatches skills proficiencyLevels = Inr result"
  shows "(\<forall>m \<in> set result.
            matchScore m = 98 \<and>
            (\<exists>i < length skills. \<exists>option \<in> set (catalog (skills ! i)).
               i < length proficiencyLevels \<and>
               0 < minScore option \<and> minScore option \<le> proficiencyLevels ! i \<and>
               100 \<le> round ((real_of_int (proficiencyLevels ! i) / real_of_int (minScore option)) * 100) \<and>
               m = jobMatch (skills ! i) (proficiencyLevels ! i) option)) \<and>
         result = take 2 (collected skills proficiencyLevels)"
proof -
  have "matchScore m = 98 \<and>
        (\<exists>i < length skills. \<exists>option \<in> set (catalog (skills ! i)).
           i < length proficiencyLevels \<and>
           0 < minScore option \<and> minScore option \<le> proficiencyLevels ! i \<and>
           100 \<le> round ((real_of_int (proficiencyLevels ! i) / real_of_int (minScore option)) * 100) \<and>
           m = jobMatch (skills ! i) (proficiencyLevels ! i) option)"
    if "m \<in> set result" for m
  proof -
    have m: "m \<in> set (collected skills proficiencyLevels)"
      using assms that by (rule result_in_collected)
    from m obtain i option where io: "i < length skills" "i < length proficiencyLevels"
        "option \<in> set (catalog (skills ! i))" "minScore option \<le> proficiencyLevels ! i"
        "m = jobMatch (skills ! i) (proficiencyLevels ! i) option"
      using collected_provenance by blast
    have pos: "0 < minScore option"
      using catalog_minScore [OF io(3)] by simp
    have "100 \<le> round ((real_of_int (proficiencyLevels ! i) / real_of_int (minScore option)) * 100)"
      using pos io(4) by (rule rawScore_ge_100)
    with m io pos show ?thesis
      using collected_matchScore by blast
  qed
  moreover have "result = take 2 (collected skills proficiencyLevels)"
    using assms by (simp add: generateJobMatches_take_collected split: if_splits)
  ultimately show ?thesis
    by blast
qed

theorem matchScore_always_98_witness:
  "generateJobMatches [''Java'', ''C++''] [82, 100] =
     Inr [jobMatch ''Java'' 82
            \<lparr>RoleOption.role = ''Backend Developer'', company = ''Cloud Services Ltd'', minScore = 82\<rparr>,
          jobMatch ''C++'' 100
            \<lparr>RoleOption.role = ''Systems Engineer'', company = ''Hardware Solutions'', minScore = 88\<rparr>] \<and>
   [jobMatch ''Java'' 82
      \<lparr>RoleOption.role = ''Backend Developer'', company = ''Cloud Services Ltd'', minScore = 82\<rparr>,
    jobMatch ''C++'' 100
      \<lparr>RoleOption.role = ''Systems Engineer'', company = ''Hardware Solutions'', minScore = 88\<rparr>]
     = take 2 (collected [''Java'', ''C++''] [82, 100])"
proof -
  have run: "generateJobMatches [''Java'', ''C++''] [82, 100] =
     Inr [jobMatch ''Java'' 82
            \<lparr>RoleOption.role = ''Backend Developer'', company = ''Cloud Services Ltd'', minScore = 82\<rparr>,
          jobMatch ''C++'' 100
            \<lparr>RoleOption.role = ''Systems Engineer'', company = ''Hardware Solutions'', minScore = 88\<rparr>]"
    by (simp add: generateJobMatches_take_collected objectPrototype_def collected_def qualifying_def
          proficiencyLevels_at_def catalog_def jobRoles_def upt_conv_Cons)
  show ?thesis
    using run matchScore_always_98 [OF run] by blast
qed


section \<open>Cardinality, degenerate inputs and the inherited properties\<close>

lemma result_length:
  "generateJobMatches skills proficiencyLevels = Inr result \<Longrightarrow> length result \<le> 2"
  by (auto simp: generateJobMatches_eq split: if_splits)

lemma generateJobMatches_returns:
  "\<forall>skill \<in> set skills. skill \<notin> set objectPrototype \<Longrightarrow>
   generateJobMatches skills proficiencyLevels = Inr (take 2 (collected skills proficiencyLevels))"
  by (simp add: generateJobMatches_take_collected)

lemma generateJobMatches_empty:
  "generateJobMatches [] proficiencyLevels = Inr []"
  by (simp add: generateJobMatches_take_collected collected_def)

lemma generateJobMatches_ineligible:
  "\<forall>skill \<in> set skills. skill \<notin> set objectPrototype \<Longrightarrow>
   collected skills proficiencyLevels = [] \<Longrightarrow>
   generateJobMatches skills proficiencyLevels = Inr []"
  by (simp add: generateJobMatches_take_collected)

lemma generateJobMatches_raises:
  "skill \<in> set skills \<Longrightarrow> skill \<in> set objectPrototype \<Longrightarrow>
   generateJobMatches skills proficiencyLevels = Inl TypeError"
  by (auto simp: generateJobMatches_eq)

text \<open>
  C3 (cardinality, and no exception on an input without eligible entries). The returned
  list has at most two elements (\<open>result_length\<close>) and the empty input returns the empty
  list (\<open>generateJobMatches_empty\<close>), as does an input without eligible entries whose skills
  name no inherited property (\<open>generateJobMatches_ineligible\<close>). Such an input raises when
  a skill is the name of a property that \<^verbatim>\<open>jobRoles\<close> inherits: \<^verbatim>\<open>jobRoles["toString"]\<close>
  is a function, \<^verbatim>\<open>|| []\<close> keeps it, and it has no \<^verbatim>\<open>forEach\<close>.
\<close>

theorem ineligible_input_raises:
  "generateJobMatches [''toString''] [50] = Inl TypeError"
  by (simp add: generateJobMatches_def roleOptions_def jobRoles_get_def jobRoles_def
        objectPrototype_def)

text \<open>
  C7 (degenerate inputs). The empty input returns the empty list, the unknown skill
  \<open>"Rust"\<close> returns the empty list and the empty attendance sequence gives 0; the unknown
  skill \<open>"constructor"\<close> raises instead of contributing no matches.
\<close>

theorem degenerate_inputs:
  "generateJobMatches [] [] = Inr [] \<and>
   generateJobMatches [''Rust''] [95] = Inr [] \<and>
   attendance [] = 0 \<and>
   map_of jobRoles ''constructor'' = None \<and>
   generateJobMatches [''constructor''] [95] = Inl TypeError"
  by (simp add: generateJobMatches_def roleOptions_def jobRoles_get_def jobRoles_def
        objectPrototype_def sort_by_def attendance_def attendancePercentage_def)

section \<open>Inputs of different lengths\<close>

text \<open>
  C5, as stated, fails: the lengths of \<open>["Python", "Java"]\<close> and \<open>[90]\<close> differ and the call
  returns two matches; no error is raised.
\<close>

theorem length_mismatch_returns:
  "length [''Python'', ''Java''] \<noteq> length [90::int] \<and>
   generateJobMatches [''Python'', ''Java''] [90] =
     Inr [\<lparr>role = ''Data Scientist'', company = ''DataCorp Analytics'', matchScore = 98,
           recommendation = ''Strong match based on your Python skills (90%). Your recent projects and assessments demonstrate the required expertise for this role.''\<rparr>,
          \<lparr>role = ''Machine Learning Engineer'', company = ''AI Solutions Ltd'', matchScore = 98,
           recommendation = ''Strong match based on your Python skills (90%). Your recent projects and assessments demonstrate the required expertise for this role.''\<rparr>]"
  by (simp add: generateJobMatches_def roleOptions_def jobRoles_get_def jobRoles_def
        objectPrototype_def proficiencyLevels_at_def jobMatch_def round_def numberToString_def
        digit_def sort_by_def compareFn_def Let_def)

lemma qualifying_below_threshold:
  "p < 80 \<Longrightarrow> qualifying skill (Some p) = []"
  using catalog_minScore [of _ skill]
  by (fastforce simp: qualifying_def filter_empty_conv)

lemma collected_padded:
  "collected skills proficiencyLevels =
     collected skills (take (length skills) proficiencyLevels
                         @ replicate (length skills - length proficiencyLevels) 0)"
proof -
  let ?padded = "take (length skills) proficiencyLevels
                   @ replicate (length skills - length proficiencyLevels) 0"
  have len: "length ?padded = length skills"
    by (simp add: min_def)
  have "qualifying (skills ! i) (proficiencyLevels_at proficiencyLevels i)
          = qualifying (skills ! i) (proficiencyLevels_at ?padded i)"
    if "i < length skills" for i
  proof (cases "i < length proficiencyLevels")
    case True
    with that have "proficiencyLevels_at ?padded i = Some (proficiencyLevels ! i)"
      unfolding proficiencyLevels_at_def len by (simp add: nth_append)
    with True show ?thesis
      by (simp add: proficiencyLevels_at_def)
  next
    case False
    with that have "proficiencyLevels_at proficiencyLevels i = None"
      and "proficiencyLevels_at ?padded i = Some 0"
      unfolding proficiencyLevels_at_def len by (simp_all add: nth_append)
    then show ?thesis
      by (simp add: qualifying_below_threshold) (simp add: qualifying_def)
  qed
  then show ?thesis
    unfolding collected_def by (intro arg_cong [where f = concat] map_cong) simp_all
qed

lemma generateJobMatches_padded:
  "generateJobMatches skills proficiencyLevels =
     generateJobMatches skills (take (length skills) proficiencyLevels
                                  @ replicate (length skills - length proficiencyLevels) 0)"
  by (simp only: generateJobMatches_take_collected collected_padded [symmetric])

lemma generateJobMatches_truncated:
  assumes "\<forall>skill \<in> set skills. skill \<notin> set objectPrototype"
  shows "\<exists>result.
           generateJobMatches skills proficiencyLevels = Inr result \<and>
           generateJobMatches
             (take (min (length skills) (length proficiencyLevels)) skills)
             (take (min (length skills) (length proficiencyLevels)) proficiencyLevels) = Inr result"
proof -
  let ?n = "min (length skills) (length proficiencyLevels)"
  have "\<forall>skill \<in> set (take ?n skills). skill \<notin> set objectPrototype"
    using assms by (auto dest: in_set_takeD)
  then have "generateJobMatches (take ?n skills) (take ?n proficiencyLevels)
               = Inr (take 2 (collected (take ?n skills) (take ?n proficiencyLevels)))"
    by (rule generateJobMatches_returns)
  also have "collected (take ?n skills) (take ?n proficiencyLevels) = collected skills proficiencyLevels"
    by (rule collected_truncate [symmetric])
  finally show ?thesis
    using generateJobMatches_returns [OF assms] by simp
qed

text \<open>
  C5, amended. Inputs of different lengths are not detected and no error is raised on
  their account. A proficiency level without a skill is never read, and a skill without a
  proficiency level reads \<^verbatim>\<open>undefined\<close>, which reaches no threshold: the call does what it
  does on the same skills with the surplus levels dropped and each missing level replaced
  by 0. When, in addition, no skill names an inherited property, the call returns, and
  returns what it returns on both inputs cut to the shorter length.
\<close>

theorem length_mismatch_truncates:
  assumes "length skills \<noteq> length proficiencyLevels"
  shows "generateJobMatches skills proficiencyLevels =
           generateJobMatches skills
             (take (length skills) proficiencyLevels
                @ replicate (length skills - length proficiencyLevels) 0) \<and>
         ((\<forall>skill \<in> set skills. skill \<notin> set objectPrototype) \<longrightarrow>
          (\<exists>result.
             generateJobMatches skills proficiencyLevels = Inr result \<and>
             generateJobMatches
               (take (min (length skills) (length proficiencyLevels)) skills)
               (take (min (length skills) (length proficiencyLevels)) proficiencyLevels) = Inr result))"
  using generateJobMatches_padded [of skills proficiencyLevels]
    generateJobMatches_truncated [of skills proficiencyLevels]
  by blast

theorem length_mismatch_truncates_witness:
  "length [''Python'', ''Java''] \<noteq> length [90::int] \<and>
   generateJobMatches [''Python'', ''Java''] [90] =
     generateJobMatches [''Python'', ''Java'']
       (take (length [''Python'', ''Java'']) [90]
          @ replicate (length [''Python'', ''Java''] - length [90::int]) 0) \<and>
   ''Python'' \<notin> set objectPrototype \<and> ''Java'' \<notin> set objectPrototype \<and>
   (\<exists>result.
      generateJobMatches [''Python'', ''Java''] [90] = Inr result \<and>
      generateJobMatches
        (take (min (length [''Python'', ''Java'']) (length [90::int])) [''Python'', ''Java''])
        (take (min (length [''Python'', ''Java'']) (length [90::int])) [90]) = Inr result)"
proof -
  have len: "length [''Python'', ''Java''] \<noteq> length [90::int]"
    by simp
  have names: "\<forall>skill \<in> set [''Python'', ''Java'']. skill \<notin> set objectPrototype"
    by (simp add: objectPrototype_def)
  have "''Python'' \<notin> set objectPrototype" and "''Java'' \<notin> set objectPrototype"
    using names by simp_all
  then show ?thesis
    using len names length_mismatch_truncates [OF len] by blast
qed

section \<open>The rounding of doubles\<close>

lemma roundTiesToEven_error:
  "\<bar>real_of_int (roundTiesToEven z) - z\<bar> \<le> 1/2"
  unfolding roundTiesToEven_def Let_def by (auto; linarith)

lemma scale_up_range:
  "0 < x \<Longrightarrow> x < 2^53 \<Longrightarrow> 2^52 \<le> x * 2^(scale_up x) \<and> x * 2^(scale_up x) < 2^53"
proof (induction x rule: scale_up.induct)
  case (1 x)
  show ?case
  proof (cases "x < 2^52")
    case True
    with "1.prems" have "2^52 \<le> (2 * x) * 2^(scale_up (2 * x)) \<and> (2 * x) * 2^(scale_up (2 * x)) < 2^53"
      by (intro "1.IH") simp_all
    moreover have "scale_up x = Suc (scale_up (2 * x))"
      using True "1.prems" by (subst scale_up.simps) simp
    ultimately show ?thesis
      by (simp add: mult.assoc mult.left_commute)
  next
    case False
    then have "scale_up x = 0"
      by (subst scale_up.simps) simp
    with False "1.prems" show ?thesis
      by simp
  qed
qed

lemma scale_up_eq:
  "0 < x \<Longrightarrow> 2^52 \<le> x * 2^k \<Longrightarrow> x * 2^k < 2^53 \<Longrightarrow> scale_up x = k"
proof (induction k arbitrary: x)
  case 0
  then show ?case
    by (subst scale_up.simps) simp
next
  case (Suc k)
  have "x * 2 \<le> x * 2^Suc k"
    using Suc.prems(1) by simp
  then have "x < 2^52"
    using Suc.prems(3) by simp
  then have "scale_up x = Suc (scale_up (2 * x))"
    using Suc.prems(1) by (subst scale_up.simps) simp
  moreover have "scale_up (2 * x) = k"
    using Suc.prems by (intro Suc.IH) (simp_all add: mult.assoc mult.left_commute)
  ultimately show ?case
    by simp
qed

lemma double_error:
  assumes "0 < x" and "x < 2^53"
  shows "\<bar>double x - x\<bar> \<le> x / 2^53"
proof -
  let ?k = "scale_up x"
  have range: "2^52 \<le> x * 2^?k"
    using scale_up_range [OF assms] by simp
  have "double x = real_of_int (roundTiesToEven (x * 2^?k)) / 2^?k"
    using assms by (simp add: double_def double_pos_def Let_def)
  then have "double x - x = (real_of_int (roundTiesToEven (x * 2^?k)) - x * 2^?k) / 2^?k"
    by (simp add: field_simps)
  then have "\<bar>double x - x\<bar> = \<bar>real_of_int (roundTiesToEven (x * 2^?k)) - x * 2^?k\<bar> / 2^?k"
    by (simp add: abs_divide)
  also have "\<dots> \<le> (1/2) / 2^?k"
    by (intro divide_right_mono roundTiesToEven_error) simp
  also have "\<dots> \<le> x / 2^53"
  proof -
    have "2^52 / 2^?k \<le> x"
      using range by (simp add: field_simps)
    then have "(2^52 / 2^?k) / 2^53 \<le> x / 2^53"
      by (intro divide_right_mono) simp_all
    then show ?thesis
      by simp
  qed
  finally show ?thesis .
qed


lemma double_eval:
  assumes "0 < x" and "2^52 \<le> x * 2^k" and "x * 2^k < 2^53"
  shows "double x = real_of_int (roundTiesToEven (x * 2^k)) / 2^k"
proof -
  have k: "scale_up x = k"
    using assms by (rule scale_up_eq)
  have "x * 1 \<le> x * 2^k"
    using assms(1) by (intro mult_left_mono) simp_all
  then have "x < 2^53"
    using assms(3) by simp
  then show ?thesis
    using assms(1) k by (simp add: double_def double_pos_def)
qed

lemma double_zero: "double 0 = 0"
  by (simp add: double_def)

lemma percentage_error:
  assumes "0 < c" and "c \<le> t"
  shows "\<bar>double (double (real c / real t) * 100) - real c / real t * 100\<bar> \<le> 201 / 2^53"
proof -
  let ?q = "real c / real t"
  let ?q' = "double ?q"
  have q: "0 < ?q" "?q \<le> 1"
    using assms by simp_all
  have "\<bar>?q' - ?q\<bar> \<le> ?q / 2^53"
    using q by (intro double_error) simp_all
  also have "\<dots> \<le> 1 / 2^53"
    using q(2) by (intro divide_right_mono) simp_all
  finally have e1: "\<bar>?q' - ?q\<bar> \<le> 1 / 2^53" .
  have "?q / 2^53 < ?q"
    using q(1) by (simp add: field_simps)
  with \<open>\<bar>?q' - ?q\<bar> \<le> ?q / 2^53\<close> have q'_pos: "0 < ?q'"
    by linarith
  have q'_le: "?q' \<le> 1 + 1 / 2^53"
    using e1 q(2) by linarith
  let ?y = "?q' * 100"
  have y: "0 < ?y" "?y \<le> 101"
    using q'_pos q'_le by simp_all
  have "\<bar>double ?y - ?y\<bar> \<le> ?y / 2^53"
    using y by (intro double_error) simp_all
  also have "\<dots> \<le> 101 / 2^53"
    using y(2) by (intro divide_right_mono) simp_all
  finally have e2: "\<bar>double ?y - ?y\<bar> \<le> 101 / 2^53" .
  have "?y - ?q * 100 = 100 * (?q' - ?q)"
    by (simp add: algebra_simps)
  then have "\<bar>?y - ?q * 100\<bar> = \<bar>100 * (?q' - ?q)\<bar>"
    by (rule arg_cong)
  also have "\<dots> = 100 * \<bar>?q' - ?q\<bar>"
    by (simp only: abs_mult abs_numeral)
  also have "\<dots> \<le> 100 * (1 / 2^53)"
    using e1 by (intro mult_left_mono) simp_all
  finally have e3: "\<bar>?y - ?q * 100\<bar> \<le> 100 / 2^53"
    by simp
  show ?thesis
    using e2 e3 by linarith
qed

lemma floor_near_quotient:
  fixes n d :: int
  assumes "0 < d" and "\<bar>w - real_of_int n / real_of_int d\<bar> < 1 / real_of_int d"
  shows "\<lfloor>w\<rfloor> = n div d \<or> (\<lfloor>w\<rfloor> = n div d - 1 \<and> n mod d = 0)"
proof -
  let ?s = "n div d" and ?r = "n mod d"
  have d: "0 < real_of_int d" "1 / real_of_int d \<le> 1"
    using assms(1) by simp_all
  have "real_of_int n = real_of_int (?s * d + ?r)"
    by simp
  also have "\<dots> = real_of_int ?s * real_of_int d + real_of_int ?r"
    by (simp only: of_int_add of_int_mult)
  finally have "real_of_int n / real_of_int d
                  = (real_of_int ?s * real_of_int d + real_of_int ?r) / real_of_int d"
    by (rule arg_cong)
  also have "\<dots> = real_of_int ?s + real_of_int ?r / real_of_int d"
    using d(1) by (simp add: add_divide_distrib)
  finally have quot: "real_of_int n / real_of_int d = real_of_int ?s + real_of_int ?r / real_of_int d" .
  show ?thesis
  proof (cases "?r = 0")
    case True
    with quot assms(2) d(2) have "real_of_int ?s - 1 < w" "w < real_of_int ?s + 1"
      by (simp_all add: abs_if split: if_splits)
    then have "?s - 1 \<le> \<lfloor>w\<rfloor>" "\<lfloor>w\<rfloor> < ?s + 1"
      by linarith+
    with True show ?thesis
      by linarith
  next
    case False
    have "0 \<le> ?r" "?r < d"
      using assms(1) by simp_all
    with False have r: "1 \<le> ?r" "?r \<le> d - 1"
      by linarith+
    have "real_of_int 1 \<le> real_of_int ?r"
      using r(1) by (simp only: of_int_le_iff)
    then have "1 / real_of_int d \<le> real_of_int ?r / real_of_int d"
      using d(1) by (intro divide_right_mono) simp_all
    moreover have "real_of_int ?r \<le> real_of_int (d - 1)"
      using r(2) by (simp only: of_int_le_iff)
    then have "real_of_int ?r / real_of_int d \<le> real_of_int (d - 1) / real_of_int d"
      using d(1) by (intro divide_right_mono) simp_all
    moreover have "real_of_int (d - 1) / real_of_int d = 1 - 1 / real_of_int d"
      using d(1) by (simp add: field_simps)
    ultimately have "real_of_int ?s < w" "w < real_of_int ?s + 1"
      using quot assms(2) by (simp_all add: abs_if split: if_splits)
    then have "?s \<le> \<lfloor>w\<rfloor>" "\<lfloor>w\<rfloor> < ?s + 1"
      by linarith+
    then show ?thesis
      by linarith
  qed
qed


section \<open>The attendance figure\<close>

lemma count_list_present:
  "count_list (map present records) True = length (filter present records)"
  by (induction records) auto

lemma spec_computeAttendancePercentage_div:
  assumes "records \<noteq> []"
  shows "spec_computeAttendancePercentage records =
           (200 * int (length (filter present records)) + int (length records))
             div (2 * int (length records))"
proof -
  let ?c = "length (filter present records)" and ?t = "length records"
  have t: "0 < real ?t"
    using assms by simp
  have "real ?c / real ?t * 100 + 1 / 2
          = real_of_int (200 * int ?c + int ?t) / real_of_int (2 * int ?t)"
    using t by (simp add: field_simps)
  then have "round (real ?c / real ?t * 100)
               = \<lfloor>real_of_int (200 * int ?c + int ?t) / real_of_int (2 * int ?t)\<rfloor>"
    by (simp only: round_def)
  then show ?thesis
    using assms
    by (simp only: spec_computeAttendancePercentage_def count_list_present
          floor_divide_of_int_eq if_False)
qed

lemma attendance_near_rounded:
  assumes "length records < 2^32"
  shows "attendance records = spec_computeAttendancePercentage records \<or>
         (attendance records = spec_computeAttendancePercentage records - 1 \<and>
          (200 * length (filter present records) + length records) mod (2 * length records) = 0)"
proof (cases "length (filter present records) = 0")
  case True
  then show ?thesis
    by (simp add: attendance_def attendancePercentage_def spec_computeAttendancePercentage_def
          count_list_present double_zero)
next
  case False
  let ?c = "length (filter present records)" and ?t = "length records"
  let ?n = "200 * int ?c + int ?t" and ?d = "2 * int ?t"
  let ?v = "double (double (real ?c / real ?t) * 100)"
  have c: "0 < ?c" "?c \<le> ?t"
    using False by simp_all
  have nonempty: "records \<noteq> []"
    using False by (cases records) simp_all
  have "0 < ?t"
    using c by linarith
  then have t: "0 < real ?t" "real ?t < 2^32" and d: "0 < ?d"
    using assms by simp_all
  have att: "attendance records = \<lfloor>?v + 1 / 2\<rfloor>"
    using nonempty by (simp add: attendance_def attendancePercentage_def round_def)
  have exact: "real ?c / real ?t * 100 + 1 / 2 = real_of_int ?n / real_of_int ?d"
    using t(1) by (simp add: field_simps)
  have "\<bar>?v - real ?c / real ?t * 100\<bar> \<le> 201 / 2^53"
    using c by (rule percentage_error)
  then have "\<bar>(?v + 1 / 2) - real_of_int ?n / real_of_int ?d\<bar> \<le> 201 / 2^53"
    by (simp only: exact [symmetric] add_diff_cancel_right)
  also have "(201::real) / 2^53 < 1 / (2 * 2^32)"
    by simp
  also have "1 / (2 * 2^32) \<le> 1 / (2 * real ?t)"
    using t by (intro divide_left_mono) simp_all
  also have "1 / (2 * real ?t) = 1 / real_of_int ?d"
    by simp
  finally have "\<lfloor>?v + 1 / 2\<rfloor> = ?n div ?d \<or> (\<lfloor>?v + 1 / 2\<rfloor> = ?n div ?d - 1 \<and> ?n mod ?d = 0)"
    using d by (intro floor_near_quotient)
  moreover have "?n mod ?d = 0 \<longleftrightarrow> (200 * ?c + ?t) mod (2 * ?t) = 0"
  proof -
    have "?n mod ?d = int ((200 * ?c + ?t) mod (2 * ?t))"
      by (simp add: zmod_int)
    then show ?thesis
      by simp
  qed
  ultimately show ?thesis
    by (simp only: att spec_computeAttendancePercentage_div [OF nonempty])
qed

lemma attendance_3_of_4:
  "attendance [\<lparr>present = True\<rparr>, \<lparr>present = False\<rparr>, \<lparr>present = True\<rparr>, \<lparr>present = True\<rparr>] = 75"
proof -
  have quotient: "double (3 / 4) = 3 / 4"
    using double_eval [of "3 / 4" 53] by (simp add: roundTiesToEven_def)
  have product: "double 75 = 75"
    using double_eval [of 75 46] by (simp add: roundTiesToEven_def)
  show ?thesis
    by (simp add: attendance_def attendancePercentage_def quotient product)
qed

text \<open>
  C8, as stated, fails: for 23 present records out of 40 the exact percentage is 57.5,
  which rounds to 58, and the dashboard computes 57. The double nearest to \<open>23/40\<close> lies
  below it, and so does the product with 100.
\<close>

theorem attendance_23_of_40:
  "attendance (replicate 23 \<lparr>present = True\<rparr> @ replicate 17 \<lparr>present = False\<rparr>) = 57 \<and>
   spec_computeAttendancePercentage (replicate 23 \<lparr>present = True\<rparr> @ replicate 17 \<lparr>present = False\<rparr>) = 58"
proof -
  have quotient: "double (23 / 40) = 5179139571476070 / 2^53"
    using double_eval [of "23 / 40" 53] by (simp add: roundTiesToEven_def)
  have "double (5179139571476070 / 2^53 * 100) = 8092405580431359 / 2^47"
    using double_eval [of "5179139571476070 / 2^53 * 100" 47] by (simp add: roundTiesToEven_def)
  then have product: "double (double (23 / 40) * 100) = 8092405580431359 / 2^47"
    by (simp only: quotient)
  have "attendance (replicate 23 \<lparr>present = True\<rparr> @ replicate 17 \<lparr>present = False\<rparr>) = 57"
    by (simp add: attendance_def attendancePercentage_def product round_def)
  moreover have "spec_computeAttendancePercentage (replicate 23 \<lparr>present = True\<rparr> @ replicate 17 \<lparr>present = False\<rparr>) = 58"
    using spec_computeAttendancePercentage_div
            [of "replicate 23 \<lparr>present = True\<rparr> @ replicate 17 \<lparr>present = False\<rparr>"]
    by simp
  ultimately show ?thesis
    by simp
qed

text \<open>
  C8, amended. The attendance figure is \<^verbatim>\<open>Math.round\<close> of the double-precision value of
  \<open>(present count / total count) * 100\<close>. For fewer than \<open>2^32\<close> records (the bound on the
  length of an array) it is the exactly rounded percentage or one less, and one less only
  when the exact percentage is a whole number plus one half. It is 0 for the empty
  sequence and 75 for three present records out of four.
\<close>

theorem attendance_percentage:
  assumes "length records < 2^32"
  shows "(attendance records = spec_computeAttendancePercentage records \<or>
          (attendance records = spec_computeAttendancePercentage records - 1 \<and>
           (200 * length (filter present records) + length records) mod (2 * length records) = 0)) \<and>
         attendance [] = 0 \<and>
         attendance [\<lparr>present = True\<rparr>, \<lparr>present = False\<rparr>, \<lparr>present = True\<rparr>, \<lparr>present = True\<rparr>] = 75"
proof -
  have "attendance [] = 0"
    by (simp add: attendance_def attendancePercentage_def)
  then show ?thesis
    using attendance_near_rounded [OF assms] attendance_3_of_4 by blast
qed

theorem attendance_percentage_witness:
  "length (replicate 29 \<lparr>present = True\<rparr> @ replicate 171 \<lparr>present = False\<rparr>) < 2^32 \<and>
   (attendance (replicate 29 \<lparr>present = True\<rparr> @ replicate 171 \<lparr>present = False\<rparr>)
      = spec_computeAttendancePercentage (replicate 29 \<lparr>present = True\<rparr> @ replicate 171 \<lparr>present = False\<rparr>) \<or>
    attendance (replicate 29 \<lparr>present = True\<rparr> @ replicate 171 \<lparr>present = False\<rparr>)
      = spec_computeAttendancePercentage (replicate 29 \<lparr>present = True\<rparr> @ replicate 171 \<lparr>present = False\<rparr>) - 1)"
proof -
  have len: "length (replicate 29 \<lparr>present = True\<rparr> @ replicate 171 \<lparr>present = False\<rparr>) < 2^32"
    by simp
  show ?thesis
    using len attendance_percentage [OF len] by blast
qed

end
